theory Spec2Isabelle
  imports Main "HOL-Library.Sublist"
begin

section \<open>JavaScript strings\<close>

text \<open>
  A string is a list of characters, one character for one code unit of the JavaScript
  string; the characters are the code units below 256 (Basic Latin and Latin-1
  Supplement). \<^verbatim>\<open>length\<close> is the list length, \<^verbatim>\<open>substr(0, 50)\<close> is \<open>take 50\<close>,
  \<^verbatim>\<open>+\<close> is \<open>@\<close>. The ellipsis of the snippet (U+2026) lies outside this range; the
  constant \<open>ellipsis\<close> stands for it, spelled by the three bytes the character has in the
  source file.
\<close>

definition ellipsis :: string where
  "ellipsis = [CHR 0xE2, CHR 0x80, CHR 0xA6]"

text \<open>
  \<^verbatim>\<open>s.indexOf(w)\<close>: the position of the first occurrence of \<open>w\<close> in \<open>s\<close>, or -1.
  The empty string occurs at position 0 of every string.
\<close>

fun indexOfFrom :: "string \<Rightarrow> string \<Rightarrow> int \<Rightarrow> int" where
  "indexOfFrom [] w i = (if w = [] then i else - 1)"
| "indexOfFrom (c # s) w i = (if prefix w (c # s) then i else indexOfFrom s w (i + 1))"

definition indexOf :: "string \<Rightarrow> string \<Rightarrow> int" where
  "indexOf s w = indexOfFrom s w 0"

text \<open>
  \<^verbatim>\<open>s.toLowerCase()\<close> on the code units below 256. The upper-case letters there are
  A to Z (65 to 90) and the accented capitals from U+00C0 to U+00DE without the
  multiplication sign U+00D7 (192 to 222 without 215); each has its lower-case letter 32
  places further on. Every other character of the range is kept: digits, punctuation,
  the lower-case letters, and the letters without a lower-case partner in the range
  (U+00DF, U+00B5, U+00FF, which are lower case already).
\<close>

definition isUpper :: "char \<Rightarrow> bool" where
  "isUpper c =
     ((65 \<le> (of_char c :: nat) \<and> (of_char c :: nat) \<le> 90) \<or>
      (192 \<le> (of_char c :: nat) \<and> (of_char c :: nat) \<le> 222 \<and> (of_char c :: nat) \<noteq> 215))"

definition lowerChar :: "char \<Rightarrow> char" where
  "lowerChar c = (if isUpper c then char_of ((of_char c :: nat) + 32) else c)"

definition toLowerCase :: "string \<Rightarrow> string" where
  "toLowerCase s = map lowerChar s"

section \<open>The platform: file system, clock, collaborators\<close>

datatype error =
    FileError string   \<comment> \<open>the \<^verbatim>\<open>FileError\<close> of the source, with its message\<close>
  | TypeError          \<comment> \<open>a property read or a method call on \<^verbatim>\<open>null\<close>\<close>
  | FsError string     \<comment> \<open>an exception of \<^verbatim>\<open>fs\<close>, with the path\<close>

text \<open>
  Calls into the collaborators (parent directory, watchdog, shell, console) are recorded
  in the order they happen.
\<close>

datatype effect =
    ConsoleLog string
  | NotifyChange string
  | ParentRemove
  | ParentSort
  | MoveItemToTrash string
  | IgnoreNext string string
  | AddPath string

record platform =
  files :: "string \<rightharpoonup> string \<times> int"   \<comment> \<open>path to (content, mtime)\<close>
  writable :: "string \<Rightarrow> bool"             \<comment> \<open>whether a write to the path succeeds\<close>
  clock :: int                               \<comment> \<open>the mtime a write stamps\<close>
  calls :: "effect list"

definition lstatSync :: "string \<Rightarrow> platform \<Rightarrow> error + int" where
  "lstatSync p os = (case files os p of None \<Rightarrow> Inl (FsError p) | Some (c, t) \<Rightarrow> Inr t)"

definition readFileSync :: "string \<Rightarrow> platform \<Rightarrow> error + string" where
  "readFileSync p os = (case files os p of None \<Rightarrow> Inl (FsError p) | Some (c, t) \<Rightarrow> Inr c)"

definition writeFileSync :: "string \<Rightarrow> string \<Rightarrow> platform \<Rightarrow> error + platform" where
  "writeFileSync p c os =
     (if writable os p then Inr (os\<lparr>files := (files os)(p \<mapsto> (c, clock os))\<rparr>)
      else Inl (FsError p))"

definition renameSync :: "string \<Rightarrow> string \<Rightarrow> platform \<Rightarrow> error + platform" where
  "renameSync old new os =
     (case files os old of
        None \<Rightarrow> Inl (FsError old)
      | Some f \<Rightarrow>
          (if writable os new then Inr (os\<lparr>files := ((files os)(old := None))(new \<mapsto> f)\<rparr>)
           else Inl (FsError new)))"

definition moveItemToTrash :: "string \<Rightarrow> platform \<Rightarrow> platform" where
  "moveItemToTrash p os = os\<lparr>files := (files os)(p := None), calls := calls os @ [MoveItemToTrash p]\<rparr>"

definition call :: "effect \<Rightarrow> platform \<Rightarrow> platform" where
  "call e os = os\<lparr>calls := calls os @ [e]\<rparr>"

text \<open>
  The helpers the source imports: \<^verbatim>\<open>sanitize\<close> (package sanitize-filename),
  \<^verbatim>\<open>hash\<close> and \<^verbatim>\<open>ignoreFile\<close> (zettlr-helpers.js) and the functions of the module
  \<^verbatim>\<open>path\<close>. None of them is part of the source file; they are parameters.
  \<open>sanitize\<close> answers \<open>None\<close> for \<^verbatim>\<open>null\<close>.
\<close>

record env =
  sanitize :: "string \<Rightarrow> string option"
  ignoreFile :: "string \<Rightarrow> bool"
  hash_fn :: "string \<Rightarrow> int"
  path_basename :: "string \<Rightarrow> string"
  path_extname :: "string \<Rightarrow> string"
  path_dirname :: "string \<Rightarrow> string"
  path_join :: "string \<Rightarrow> string \<Rightarrow> string"

section \<open>The model ZettlrFile\<close>

text \<open>
  The parent directory model (zettlr-dir.js) is seen through what the file reads from it:
  its \<^verbatim>\<open>name\<close>, the answer of \<^verbatim>\<open>isDirectory()\<close> and the value its \<^verbatim>\<open>remove\<close>
  returns.
\<close>

record ZettlrDir =
  dir_name :: string
  dir_isDirectory :: bool
  dir_remove :: bool

record ZettlrFile =
  parent :: "ZettlrDir option"   \<comment> \<open>\<open>None\<close> is \<^verbatim>\<open>null\<close>\<close>
  dir :: string
  name :: string
  path :: string
  hash :: int
  type :: string
  ext :: string
  modtime :: int
  snippet :: string
  content :: string
  modified :: bool

text \<open>The state a method runs in: the fields of \<^verbatim>\<open>this\<close> and the platform.\<close>

record world = ZettlrFile +
  os :: platform

definition isRoot :: "world \<Rightarrow> error + bool" where
  "isRoot w = (case parent w of None \<Rightarrow> Inl TypeError | Some d \<Rightarrow> Inr (\<not> dir_isDirectory d))"

definition isModified :: "world \<Rightarrow> bool" where
  "isModified w = modified w"

definition isScope :: "string \<Rightarrow> world \<Rightarrow> bool" where
  "isScope p w = (p = path w)"

definition setContent :: "string \<Rightarrow> world \<Rightarrow> world" where
  "setContent cnt w =
     w\<lparr>content := cnt,
       snippet := (if length cnt > 50 then take 50 cnt @ ellipsis else cnt),
       modified := True\<rparr>"

definition read :: "world \<Rightarrow> (error + string) \<times> world" where
  "read w =
     (case lstatSync (path w) (os w) of
        Inl e \<Rightarrow> (Inl e, w)
      | Inr t \<Rightarrow>
          let w1 = w\<lparr>modtime := t\<rparr> in
          (case readFileSync (path w1) (os w1) of
             Inl e \<Rightarrow> (Inl e, w1)
           | Inr cnt \<Rightarrow>
               (Inr cnt,
                w1\<lparr>snippet := (if length cnt > 50 then take 50 cnt @ ellipsis else cnt),
                   modified := False\<rparr>)))"

definition update :: "world \<Rightarrow> (error + unit) \<times> world" where
  "update w = (case read w of (Inl e, w1) \<Rightarrow> (Inl e, w1) | (Inr cnt, w1) \<Rightarrow> (Inr (), w1))"

definition save :: "world \<Rightarrow> (error + unit) \<times> world" where
  "save w =
     (case writeFileSync (path w) (content w) (os w) of
        Inl e \<Rightarrow> (Inl e, w)
      | Inr os1 \<Rightarrow>
          let w1 = w\<lparr>os := os1\<rparr>;
              w2 = w1\<lparr>content := [], modified := False\<rparr>
          in (case read w2 of (Inl e, w3) \<Rightarrow> (Inl e, w3) | (Inr cnt, w3) \<Rightarrow> (Inr (), w3)))"

text \<open>
  The constructor: the fields are filled from the path, a missing file is created empty,
  the file is read once, and a root file is registered with the watchdog.
\<close>

definition constructor :: "env \<Rightarrow> ZettlrDir \<Rightarrow> string \<Rightarrow> platform \<Rightarrow> (error + unit) \<times> world" where
  "constructor E par fname os0 =
     (let w = \<lparr>parent = Some par, dir = dir_name par, name = path_basename E fname,
               path = fname, hash = hash_fn E fname, type = ''file'',
               ext = path_extname E fname, modtime = 0, snippet = [], content = [],
               modified = False, os = os0\<rparr>;
          created = (case lstatSync (path w) (os w) of
                       Inr t \<Rightarrow> Inr w
                     | Inl e \<Rightarrow> (case writeFileSync (path w) [] (os w) of
                                   Inl e' \<Rightarrow> Inl e'
                                 | Inr os1 \<Rightarrow> Inr (w\<lparr>os := os1\<rparr>)))
      in case created of
           Inl e \<Rightarrow> (Inl e, w)
         | Inr w1 \<Rightarrow>
             (case read w1 of
                (Inl e, w2) \<Rightarrow> (Inl e, w2)
              | (Inr cnt, w2) \<Rightarrow>
                  (case isRoot w2 of
                     Inl e \<Rightarrow> (Inl e, w2)
                   | Inr r \<Rightarrow>
                       if r then (Inr (), w2\<lparr>os := call (AddPath (path w2)) (os w2)\<rparr>)
                       else (Inr (), w2))))"


subsection \<open>Lookup by path or hash\<close>

text \<open>
  A property of the query object: not an own property, \<^verbatim>\<open>null\<close> (or
  \<^verbatim>\<open>undefined\<close>), or a value of the field's type. Between two values of one type
  \<^verbatim>\<open>==\<close> is equality.
\<close>

datatype 'a property = Absent | Null | Value 'a

record query =
  q_path :: "string property"
  q_hash :: "int property"

fun present :: "'a property \<Rightarrow> bool" where
  "present (Value v) = True"
| "present Absent = False"
| "present Null = False"

definition findFile :: "query \<Rightarrow> world \<Rightarrow> error + world option" where
  "findFile obj w =
     (if present (q_path obj) then
        (if Value (path w) = q_path obj then Inr (Some w) else Inr None)
      else if present (q_hash obj) then
        (if Value (hash w) = q_hash obj then Inr (Some w) else Inr None)
      else Inl (FileError ''Cannot findFile!''))"

subsection \<open>Removal\<close>

definition remove :: "world \<Rightarrow> (error + bool) \<times> world" where
  "remove w =
     (let w1 = w\<lparr>os := moveItemToTrash (path w) (os w)\<rparr> in
      case parent w1 of
        None \<Rightarrow> (Inl TypeError, w1)
      | Some d \<Rightarrow> (Inr (dir_remove d), w1\<lparr>os := call ParentRemove (os w1)\<rparr>))"

definition detach :: "world \<Rightarrow> (error + unit) \<times> world" where
  "detach w =
     (case parent w of
        None \<Rightarrow> (Inl TypeError, w)
      | Some d \<Rightarrow> (Inr (), w\<lparr>parent := None, os := call ParentRemove (os w)\<rparr>))"

subsection \<open>Rename\<close>

text \<open>
  The second argument of \<^verbatim>\<open>rename\<close>: \<^verbatim>\<open>null\<close> (also the default when it is left
  out), an object that has or has not an own property \<^verbatim>\<open>ignoreNext\<close>, or a value
  whose \<^verbatim>\<open>typeof\<close> is not \<^verbatim>\<open>'object'\<close>. \<^verbatim>\<open>typeof null\<close> is \<^verbatim>\<open>'object'\<close>, so for
  \<^verbatim>\<open>null\<close> the test goes on to \<^verbatim>\<open>null.hasOwnProperty\<close>, a TypeError.
\<close>

datatype watchdog = WNull | WObject bool | WOther

definition rename :: "env \<Rightarrow> string \<Rightarrow> watchdog \<Rightarrow> world \<Rightarrow> (error + unit) \<times> world" where
  "rename E name0 wd w =
     (case sanitize E name0 of
        None \<Rightarrow> (Inl (FileError ''The new name did not contain any allowed characters.''), w)
      | Some name1 \<Rightarrow>
          (if name1 = [] then
             (Inl (FileError ''The new name did not contain any allowed characters.''), w)
           else
             (let name2 = (if ignoreFile E name1 then name1 @ ''.md'' else name1);
                  w1 = w\<lparr>name := name2\<rparr>;
                  newpath = path_join E (path_dirname E (path w1)) (name w1);
                  ignored = (case wd of
                               WNull \<Rightarrow> Inl TypeError
                             | WObject has \<Rightarrow>
                                 (if has then
                                    Inr (w1\<lparr>os := call (IgnoreNext ''add'' newpath)
                                                  (call (IgnoreNext ''unlink'' (path w1)) (os w1))\<rparr>)
                                  else Inr w1)
                             | WOther \<Rightarrow> Inr w1)
              in (case ignored of
                    Inl e \<Rightarrow> (Inl e, w1)
                  | Inr w2 \<Rightarrow>
                      (case renameSync (path w2) newpath (os w2) of
                         Inl e \<Rightarrow> (Inl e, w2)
                       | Inr os3 \<Rightarrow>
                           (let w3 = w2\<lparr>os := os3\<rparr>;
                                w4 = w3\<lparr>path := newpath\<rparr>;
                                w5 = w4\<lparr>hash := hash_fn E (path w4)\<rparr>
                            in (case parent w5 of
                                  None \<Rightarrow> (Inl TypeError, w5)
                                | Some d \<Rightarrow> (Inr (), w5\<lparr>os := call ParentSort (os w5)\<rparr>))))))))"

subsection \<open>Events of the watchdog\<close>

definition handleEvent :: "string \<Rightarrow> string \<Rightarrow> world \<Rightarrow> (error + unit) \<times> world" where
  "handleEvent p e w =
     (if isScope p w then
        let w1 = w\<lparr>os := call (ConsoleLog (''File '' @ name w @ '' is handling the event '' @ e)) (os w)\<rparr>
        in if e = ''change'' then
             (case update w1 of
                (Inl er, w2) \<Rightarrow> (Inl er, w2)
              | (Inr u, w2) \<Rightarrow>
                  (case parent w2 of
                     None \<Rightarrow> (Inl TypeError, w2)
                   | Some d \<Rightarrow>
                       (Inr (), w2\<lparr>os := call (NotifyChange (''File '' @ name w2 @ '' has changed remotely.''))
                                            (os w2)\<rparr>)))
           else if e = ''unlink'' then
             (case parent w1 of
                None \<Rightarrow> (Inl TypeError, w1)
              | Some d \<Rightarrow>
                  let w2 = w1\<lparr>os := call (NotifyChange (''File '' @ name w1 @ '' has been removed.''))
                                      (os w1)\<rparr>
                  in (case remove w2 of
                        (Inl er, w3) \<Rightarrow> (Inl er, w3)
                      | (Inr b, w3) \<Rightarrow> (Inr (), w3)))
           else (Inr (), w1)
      else (Inr (), w))"

subsection \<open>Search\<close>

text \<open>
  A search term has an \<^verbatim>\<open>operator\<close> and a \<^verbatim>\<open>word\<close>, which is a string or an array of
  strings. \<^verbatim>\<open>indexOf\<close> turns its argument into a string (an array is joined with
  commas); \<^verbatim>\<open>for ... of\<close> runs over the elements of an array and over the characters
  of a string.
\<close>

datatype js_word = Str string | Arr "string list"

record search_term =
  operator :: string
  word :: js_word

fun join_comma :: "string list \<Rightarrow> string" where
  "join_comma [] = []"
| "join_comma [x] = x"
| "join_comma (x # y # ys) = x @ '','' @ join_comma (y # ys)"

fun toString :: "js_word \<Rightarrow> string" where
  "toString (Str s) = s"
| "toString (Arr ws) = join_comma ws"

fun iterate :: "js_word \<Rightarrow> string list" where
  "iterate (Str s) = map (\<lambda>c. [c]) s"
| "iterate (Arr ws) = ws"

text \<open>The inner loop of an OR term: one increment at the first candidate found, then \<^verbatim>\<open>break\<close>.\<close>

fun or_loop :: "string \<Rightarrow> string list \<Rightarrow> nat \<Rightarrow> nat" where
  "or_loop s [] matches = matches"
| "or_loop s (wd # wds) matches =
     (if indexOf s wd > - 1 then matches + 1 else or_loop s wds matches)"

text \<open>
  The loop over the terms, the same in both phases: \<open>s\<close> is the file name in the first
  and the lower-cased content in the second; \<open>matches\<close> is the counter on entry.
\<close>

fun term_loop :: "string \<Rightarrow> search_term list \<Rightarrow> nat \<Rightarrow> nat" where
  "term_loop s [] matches = matches"
| "term_loop s (t # ts) matches =
     term_loop s ts
       (if operator t = ''AND'' then
          (if indexOf s (toString (word t)) > - 1 then matches + 1 else matches)
        else or_loop s (iterate (word t)) matches)"

definition search :: "search_term list \<Rightarrow> world \<Rightarrow> (error + bool) \<times> world" where
  "search terms w =
     (let matches = term_loop (name w) terms 0 in
      if matches = length terms then (Inr True, w)
      else
        (case read w of
           (Inl e, w1) \<Rightarrow> (Inl e, w1)
         | (Inr cnt, w1) \<Rightarrow>
             let cnt1 = toLowerCase cnt;
                 matches1 = term_loop cnt1 terms matches
             in (Inr (matches1 = length terms), w1)))"

text \<open>
  The variant the specification compares with: the same function without the line
  \<^verbatim>\<open>if(matches == terms.length) { return true; }\<close>, so the content phase always runs
  and the counter is tested once, at the end.
\<close>

definition search_without_early_return :: "search_term list \<Rightarrow> world \<Rightarrow> (error + bool) \<times> world" where
  "search_without_early_return terms w =
     (let matches = term_loop (name w) terms 0 in
        (case read w of
           (Inl e, w1) \<Rightarrow> (Inl e, w1)
         | (Inr cnt, w1) \<Rightarrow>
             let cnt1 = toLowerCase cnt;
                 matches1 = term_loop cnt1 terms matches
             in (Inr (matches1 = length terms), w1)))"


section \<open>A small instance\<close>

text \<open>
  Concrete helpers and a concrete disk, to run the model: names are cleaned by dropping
  slashes, a name is without a known extension when it does not end in \<^verbatim>\<open>.md\<close>,
  paths are split and joined at the last \<^verbatim>\<open>/\<close>. The disk holds one file,
  \<^verbatim>\<open>/notes/hello.md\<close>, with the text \<^verbatim>\<open>hello world\<close>.
\<close>

definition example_env :: env where
  "example_env =
     \<lparr>sanitize = (\<lambda>s. Some (filter (\<lambda>c. c \<noteq> CHR ''/'') s)),
      ignoreFile = (\<lambda>s. \<not> suffix ''.md'' s),
      hash_fn = (\<lambda>s. int (length s)),
      path_basename = (\<lambda>p. rev (takeWhile (\<lambda>c. c \<noteq> CHR ''/'') (rev p))),
      path_extname = (\<lambda>p. CHR ''.'' # rev (takeWhile (\<lambda>c. c \<noteq> CHR ''.'') (rev p))),
      path_dirname = (\<lambda>p. rev (tl (dropWhile (\<lambda>c. c \<noteq> CHR ''/'') (rev p)))),
      path_join = (\<lambda>a b. a @ ''/'' @ b)\<rparr>"

definition example_dir :: ZettlrDir where
  "example_dir = \<lparr>dir_name = ''notes'', dir_isDirectory = True, dir_remove = True\<rparr>"

definition example_os :: platform where
  "example_os =
     \<lparr>files = [''/notes/hello.md'' \<mapsto> (''hello world'', 7)],
      writable = (\<lambda>p. True), clock = 9, calls = []\<rparr>"

definition example_file :: world where
  "example_file = snd (constructor example_env example_dir ''/notes/hello.md'' example_os)"




section \<open>The instance, evaluated\<close>

lemma example_file_eq:
  "example_file =
     \<lparr>parent = Some example_dir, dir = ''notes'', name = ''hello.md'',
      path = ''/notes/hello.md'', hash = 15, type = ''file'', ext = ''.md'', modtime = 7,
      snippet = ''hello world'', content = [], modified = False, os = example_os\<rparr>"
  by (simp add: example_file_def constructor_def example_env_def example_dir_def
      example_os_def lstatSync_def readFileSync_def read_def isRoot_def Let_def)

lemma constructor_example_ok:
  "fst (constructor example_env example_dir ''/notes/hello.md'' example_os) = Inr ()"
  by (simp add: constructor_def example_env_def example_dir_def
      example_os_def lstatSync_def readFileSync_def read_def isRoot_def Let_def)

section \<open>Content: setContent\<close>

text \<open>
  Claim C8. For every string X, after \<^verbatim>\<open>setContent(X)\<close> the dirty flag
  \<^verbatim>\<open>isModified()\<close> is true, and the snippet is the first 50 characters of X followed
  by the ellipsis when X is longer than 50 characters, else X itself. (The buffer then
  holds X.)
\<close>

theorem setContent_snippet:
  "isModified (setContent X w) \<and>
   snippet (setContent X w) = (if length X > 50 then take 50 X @ ellipsis else X) \<and>
   content (setContent X w) = X"
  by (simp add: setContent_def isModified_def)

section \<open>Lookup: findFile\<close>

text \<open>
  Claim C6. \<^verbatim>\<open>findFile(query)\<close>: when the query has a non-null \<^verbatim>\<open>path\<close>, that field
  alone decides (whatever \<^verbatim>\<open>hash\<close> is): the model is returned when the path equals
  the model's path, and \<^verbatim>\<open>null\<close> otherwise. When \<^verbatim>\<open>path\<close> is absent or null and
  \<^verbatim>\<open>hash\<close> is non-null, the hash decides in the same way. When neither is present
  and non-null, the call fails with the FileError \<^verbatim>\<open>Cannot findFile!\<close>. A query that
  does not match never raises.
\<close>

theorem findFile_cases:
  "findFile \<lparr>q_path = Value p, q_hash = h\<rparr> w = Inr (if p = path w then Some w else None) \<and>
   findFile \<lparr>q_path = Absent, q_hash = Value k\<rparr> w = Inr (if k = hash w then Some w else None) \<and>
   findFile \<lparr>q_path = Null, q_hash = Value k\<rparr> w = Inr (if k = hash w then Some w else None) \<and>
   findFile \<lparr>q_path = Absent, q_hash = Absent\<rparr> w = Inl (FileError ''Cannot findFile!'') \<and>
   findFile \<lparr>q_path = Absent, q_hash = Null\<rparr> w = Inl (FileError ''Cannot findFile!'') \<and>
   findFile \<lparr>q_path = Null, q_hash = Absent\<rparr> w = Inl (FileError ''Cannot findFile!'') \<and>
   findFile \<lparr>q_path = Null, q_hash = Null\<rparr> w = Inl (FileError ''Cannot findFile!'')"
  by (auto simp add: findFile_def)

section \<open>Rename\<close>

text \<open>
  Claim C4. When the sanitized name is \<^verbatim>\<open>null\<close> or empty, \<^verbatim>\<open>rename\<close> fails with the
  FileError about the name, whatever the watchdog argument is, and nothing has happened:
  the whole state (path, name, hash, every other field, the disk and the calls made to
  the collaborators) is the one before the call.
\<close>

theorem rename_invalid_name:
  "sanitize E n = None \<or> sanitize E n = Some [] \<Longrightarrow>
   rename E n wd w = (Inl (FileError ''The new name did not contain any allowed characters.''), w)"
  by (auto simp add: rename_def)

theorem rename_invalid_name_witness:
  "sanitize example_env ''//'' = Some [] \<and>
   rename example_env ''//'' WNull example_file =
     (Inl (FileError ''The new name did not contain any allowed characters.''), example_file)"
  using rename_invalid_name [of example_env "''//''" WNull example_file]
  by (simp add: example_env_def)


text \<open>
  Claim C7. When the sanitized name is non-empty and \<^verbatim>\<open>ignoreFile\<close> answers true for it
  (it has no recognised extension), \<^verbatim>\<open>rename\<close> sets the model's name to the sanitized
  name followed by \<^verbatim>\<open>.md\<close>, in every outcome of the call. When the rename goes
  through (a watchdog argument other than \<^verbatim>\<open>null\<close>, the file on disk, the target
  writable, a parent to sort), it succeeds, and the file is then on disk under the
  directory of the old path joined with that name, which is the model's new path.
\<close>

theorem rename_appends_md:
  assumes "sanitize E n = Some s" and "s \<noteq> []" and "ignoreFile E s"
  shows "name (snd (rename E n wd w)) = s @ ''.md'' \<and>
    (wd \<noteq> WNull \<and> files (os w) (path w) = Some f \<and>
     writable (os w) (path_join E (path_dirname E (path w)) (s @ ''.md'')) \<and>
     parent w = Some d \<longrightarrow>
       fst (rename E n wd w) = Inr () \<and>
       path (snd (rename E n wd w)) = path_join E (path_dirname E (path w)) (s @ ''.md'') \<and>
       files (os (snd (rename E n wd w))) (path_join E (path_dirname E (path w)) (s @ ''.md''))
         = Some f)"
  using assms
  by (cases wd)
    (auto simp add: rename_def renameSync_def call_def Let_def split: sum.splits option.splits)

theorem rename_appends_md_witness:
  "sanitize example_env ''notes'' = Some ''notes'' \<and> ignoreFile example_env ''notes'' \<and>
   name (snd (rename example_env ''notes'' (WObject True) example_file)) = ''notes.md'' \<and>
   fst (rename example_env ''notes'' (WObject True) example_file) = Inr () \<and>
   path (snd (rename example_env ''notes'' (WObject True) example_file)) = ''/notes/notes.md'' \<and>
   files (os (snd (rename example_env ''notes'' (WObject True) example_file))) ''/notes/notes.md''
     = Some (''hello world'', 7)"
proof -
  have a: "sanitize example_env ''notes'' = Some ''notes''"
    by (simp add: example_env_def)
  have b: "''notes'' \<noteq> []"
    by simp
  have c: "ignoreFile example_env ''notes''"
    by (simp add: example_env_def suffix_def)
  have d: "path_join example_env (path_dirname example_env (path example_file))
             (''notes'' @ ''.md'') = ''/notes/notes.md''"
    by (simp add: example_env_def example_file_eq)
  from rename_appends_md [OF a b c, of "WObject True" example_file "(''hello world'', 7)"
      example_dir] a c d
  show ?thesis
    by (simp add: example_file_eq example_os_def)
qed

text \<open>
  With the watchdog argument left out (\<^verbatim>\<open>null\<close>), a valid name is assigned and the call
  then stops with a TypeError at \<^verbatim>\<open>watchdog.hasOwnProperty\<close>: the disk and the path
  are as before.
\<close>

lemma rename_default_watchdog:
  "sanitize E n = Some s \<Longrightarrow> s \<noteq> [] \<Longrightarrow>
   rename E n WNull w =
     (Inl TypeError, w\<lparr>name := (if ignoreFile E s then s @ ''.md'' else s)\<rparr>)"
  by (simp add: rename_def Let_def)

section \<open>Reading and saving\<close>

lemma read_existing:
  "files (os w) (path w) = Some (c, t) \<Longrightarrow>
   read w =
     (Inr c,
      w\<lparr>modtime := t, snippet := (if length c > 50 then take 50 c @ ellipsis else c),
        modified := False\<rparr>)"
  by (simp add: read_def lstatSync_def readFileSync_def Let_def)

lemma read_missing:
  "files (os w) (path w) = None \<Longrightarrow> read w = (Inl (FsError (path w)), w)"
  by (simp add: read_def lstatSync_def)

text \<open>
  Claim C5. For every string X and every state whose path can be written:
  \<^verbatim>\<open>setContent(X)\<close> and then \<^verbatim>\<open>save()\<close> succeeds and leaves the buffer empty and
  the dirty flag false, and a \<^verbatim>\<open>read()\<close> after it returns X.
\<close>

theorem save_read_roundtrip:
  "writable (os w) (path w) \<Longrightarrow>
   fst (save (setContent X w)) = Inr () \<and>
   content (snd (save (setContent X w))) = [] \<and>
   \<not> isModified (snd (save (setContent X w))) \<and>
   fst (read (snd (save (setContent X w)))) = Inr X"
  by (simp add: save_def setContent_def writeFileSync_def read_def lstatSync_def
      readFileSync_def isModified_def Let_def)

theorem save_read_roundtrip_witness:
  "writable (os example_file) (path example_file) \<and>
   fst (save (setContent ''new text'' example_file)) = Inr () \<and>
   content (snd (save (setContent ''new text'' example_file))) = [] \<and>
   \<not> isModified (snd (save (setContent ''new text'' example_file))) \<and>
   fst (read (snd (save (setContent ''new text'' example_file)))) = Inr ''new text''"
proof -
  have h: "writable (os example_file) (path example_file)"
    by (simp add: example_file_eq example_os_def)
  from save_read_roundtrip [OF h, of "''new text''"] h show ?thesis
    by simp
qed

text \<open>
  Claim C1. The claim: a non-empty buffer implies the dirty flag, and after a read the
  buffer is empty, so \<^verbatim>\<open>setContent(X)\<close> followed by \<^verbatim>\<open>read()\<close> leaves the buffer
  empty. The code at \<^verbatim>\<open>setContent('x')\<close> followed by \<^verbatim>\<open>read()\<close>, on the model
  constructed for \<^verbatim>\<open>/notes/hello.md\<close>: the read succeeds and clears the dirty flag,
  and the buffer still holds \<^verbatim>\<open>x\<close>.
\<close>

theorem read_keeps_buffer:
  "fst (read (setContent ''x'' example_file)) = Inr ''hello world'' \<and>
   content (snd (read (setContent ''x'' example_file))) = ''x'' \<and>
   isModified (snd (read (setContent ''x'' example_file))) = False"
  by (simp add: example_file_eq example_os_def setContent_def read_def lstatSync_def
      readFileSync_def isModified_def Let_def)

text \<open>In general \<^verbatim>\<open>read\<close> never assigns the buffer.\<close>

lemma read_content: "content (snd (read w)) = content w"
  by (simp add: read_def lstatSync_def readFileSync_def Let_def split: option.splits)

section \<open>Events\<close>

text \<open>
  Claim C9. \<^verbatim>\<open>handleEvent(p, e)\<close> with p different from the model's path does
  nothing: the state, with the disk and the calls made, is unchanged. With p the
  model's path, the event \<^verbatim>\<open>unlink\<close> and a parent at hand, the call logs, notifies
  the parent, moves the file to the trash and has the parent remove the model, in this
  order.
\<close>

theorem handleEvent_unlink:
  "(p \<noteq> path w \<longrightarrow> handleEvent p e w = (Inr (), w)) \<and>
   (parent w = Some d \<longrightarrow>
      handleEvent (path w) ''unlink'' w =
        (Inr (),
         w\<lparr>os := (os w)\<lparr>files := (files (os w))(path w := None),
                         calls := calls (os w) @
                           [ConsoleLog (''File '' @ name w @ '' is handling the event unlink''),
                            NotifyChange (''File '' @ name w @ '' has been removed.''),
                            MoveItemToTrash (path w),
                            ParentRemove]\<rparr>\<rparr>))"
  by (simp add: handleEvent_def isScope_def remove_def call_def moveItemToTrash_def Let_def)

theorem handleEvent_unlink_witness:
  "''/notes/other.md'' \<noteq> path example_file \<and>
   handleEvent ''/notes/other.md'' ''unlink'' example_file = (Inr (), example_file) \<and>
   parent example_file = Some example_dir \<and>
   calls (os (snd (handleEvent ''/notes/hello.md'' ''unlink'' example_file))) =
     [ConsoleLog ''File hello.md is handling the event unlink'',
      NotifyChange ''File hello.md has been removed.'',
      MoveItemToTrash ''/notes/hello.md'',
      ParentRemove]"
  using handleEvent_unlink [of "''/notes/other.md''" example_file "''unlink''" example_dir]
  by (simp add: example_file_eq example_os_def)

text \<open>A model without a parent stops at the notification, after the log line.\<close>

lemma handleEvent_unlink_detached:
  "parent w = None \<Longrightarrow>
   handleEvent (path w) ''unlink'' w =
     (Inl TypeError,
      w\<lparr>os := call (ConsoleLog (''File '' @ name w @ '' is handling the event unlink'')) (os w)\<rparr>)"
  by (simp add: handleEvent_def isScope_def Let_def)


section \<open>Search\<close>

subsection \<open>Substrings and lower case\<close>






text \<open>The upper-case letters are the characters that lower-casing changes.\<close>

lemma isUpper_iff_lowered: "isUpper c = (lowerChar c \<noteq> c)"
proof (cases "isUpper c")
  case True
  then have "of_char (lowerChar c) = (of_char c :: nat) + 32"
    by (auto simp add: lowerChar_def isUpper_def)
  then have "lowerChar c \<noteq> c"
    by auto
  with True show ?thesis
    by simp
next
  case False
  then show ?thesis
    by (simp add: lowerChar_def)
qed




lemma or_loop_shift: "or_loop s wds m = m + or_loop s wds 0"
  by (induction wds) auto

lemma term_loop_shift: "term_loop s ts m = m + term_loop s ts 0"
proof (induction ts arbitrary: m)
  case Nil
  then show ?case by simp
next
  case (Cons t ts)
  have a: "term_loop s ts k = k + term_loop s ts 0" for k
    by (rule Cons.IH)
  show ?case
  proof (cases "operator t = ''AND''")
    case True
    then show ?thesis
      using a [of "m + 1"] a [of m] a [of 1] by simp
  next
    case False
    then show ?thesis
      using a [of "or_loop s (iterate (word t)) m"] a [of "or_loop s (iterate (word t)) 0"]
        or_loop_shift [of s "iterate (word t)" m]
      by simp
  qed
qed



subsection \<open>The early return\<close>

text \<open>
  Claim C2, as stated: the function with the early return and the one that always goes
  on into the content phase give the same result. On the file \<^verbatim>\<open>hello.md\<close> with the
  text \<^verbatim>\<open>hello world\<close> and the single term AND \<^verbatim>\<open>hello\<close> the first returns true
  and the second false: the title phase counts 1, the content phase 1 more, and 2 is
  not the number of terms.
\<close>

theorem early_return_counterexample:
  "fst (search [\<lparr>operator = ''AND'', word = Str ''hello''\<rparr>] example_file) = Inr True \<and>
   fst (search_without_early_return [\<lparr>operator = ''AND'', word = Str ''hello''\<rparr>] example_file)
     = Inr False"
  by (simp add: search_def search_without_early_return_def example_file_eq example_os_def
      read_def lstatSync_def readFileSync_def indexOf_def toLowerCase_def lowerChar_def
      isUpper_def Let_def)

text \<open>
  Claim C2, amended. The two functions agree (in result and in state) whenever the title
  phase has not already matched as many times as there are terms. When it has, the
  function of the source returns true and leaves the state alone, and the function
  without the early return reads the file and returns true only when the content phase
  counts nothing more: its result is whether the title count plus the content count is
  the number of terms (an error when the file cannot be read).
\<close>

theorem search_early_return:
  "search ts w =
     (if term_loop (name w) ts 0 = length ts then (Inr True, w)
      else search_without_early_return ts w) \<and>
   fst (search_without_early_return ts w) =
     (case files (os w) (path w) of
        None \<Rightarrow> Inl (FsError (path w))
      | Some (cnt, t) \<Rightarrow>
          Inr (term_loop (name w) ts 0 + term_loop (toLowerCase cnt) ts 0 = length ts))"
proof
  show "search ts w =
     (if term_loop (name w) ts 0 = length ts then (Inr True, w)
      else search_without_early_return ts w)"
    by (simp add: search_def search_without_early_return_def Let_def)
next
  show "fst (search_without_early_return ts w) =
     (case files (os w) (path w) of
        None \<Rightarrow> Inl (FsError (path w))
      | Some (cnt, t) \<Rightarrow>
          Inr (term_loop (name w) ts 0 + term_loop (toLowerCase cnt) ts 0 = length ts))"
  proof (cases "files (os w) (path w)")
    case None
    then show ?thesis
      by (simp add: search_without_early_return_def read_missing)
  next
    case (Some f)
    obtain cnt t where f: "f = (cnt, t)"
      by (cases f)
    with Some have r: "files (os w) (path w) = Some (cnt, t)"
      by simp
    show ?thesis
      using term_loop_shift [of "toLowerCase cnt" ts "term_loop (name w) ts 0"]
      by (simp add: search_without_early_return_def read_existing [OF r] r Let_def)
  qed
qed

subsection \<open>One counter for both phases\<close>

text \<open>
  Claim C3. With the file readable, \<^verbatim>\<open>search\<close> returns whether the final value of the
  counter is the number of terms, where the counter is the title count when that
  already is the number of terms, and otherwise the title count plus the content count
  (the content phase goes on from the title count). So with the two terms AND
  \<^verbatim>\<open>hello\<close> and AND \<^verbatim>\<open>zzz\<close> on the file \<^verbatim>\<open>hello.md\<close> with the text
  \<^verbatim>\<open>hello world\<close> the result is true: \<^verbatim>\<open>hello\<close> is counted in the name and again
  in the content, \<^verbatim>\<open>zzz\<close> is in neither.
\<close>

theorem search_shared_counter:
  assumes "files (os w) (path w) = Some (cnt, t)"
  shows "fst (search ts w) =
      Inr ((let m = term_loop (name w) ts 0
            in if m = length ts then m else m + term_loop (toLowerCase cnt) ts 0) = length ts) \<and>
    (fst (search [\<lparr>operator = ''AND'', word = Str ''hello''\<rparr>,
                  \<lparr>operator = ''AND'', word = Str ''zzz''\<rparr>] example_file) = Inr True \<and>
     indexOf (name example_file) ''hello'' > - 1 \<and>
     indexOf (toLowerCase ''hello world'') ''hello'' > - 1 \<and>
     indexOf (name example_file) ''zzz'' = - 1 \<and>
     indexOf (toLowerCase ''hello world'') ''zzz'' = - 1)"
proof
  show "fst (search ts w) =
      Inr ((let m = term_loop (name w) ts 0
            in if m = length ts then m else m + term_loop (toLowerCase cnt) ts 0) = length ts)"
    using term_loop_shift [of "toLowerCase cnt" ts "term_loop (name w) ts 0"]
    by (simp add: search_def read_existing [OF assms] Let_def)
next
  show "fst (search [\<lparr>operator = ''AND'', word = Str ''hello''\<rparr>,
                  \<lparr>operator = ''AND'', word = Str ''zzz''\<rparr>] example_file) = Inr True \<and>
     indexOf (name example_file) ''hello'' > - 1 \<and>
     indexOf (toLowerCase ''hello world'') ''hello'' > - 1 \<and>
     indexOf (name example_file) ''zzz'' = - 1 \<and>
     indexOf (toLowerCase ''hello world'') ''zzz'' = - 1"
    by (simp add: search_def example_file_eq example_os_def
      read_def lstatSync_def readFileSync_def indexOf_def toLowerCase_def lowerChar_def
      isUpper_def Let_def)
qed

theorem search_shared_counter_witness:
  "files (os example_file) (path example_file) = Some (''hello world'', 7) \<and>
   fst (search [\<lparr>operator = ''OR'', word = Arr [''zzz'', ''world'']\<rparr>] example_file) = Inr True \<and>
   term_loop (name example_file) [\<lparr>operator = ''OR'', word = Arr [''zzz'', ''world'']\<rparr>] 0 = 0 \<and>
   term_loop (toLowerCase ''hello world'') [\<lparr>operator = ''OR'', word = Arr [''zzz'', ''world'']\<rparr>] 0 = 1"
proof -
  have h: "files (os example_file) (path example_file) = Some (''hello world'', 7)"
    by (simp add: example_file_eq example_os_def)
  have a: "term_loop (name example_file) [\<lparr>operator = ''OR'', word = Arr [''zzz'', ''world'']\<rparr>] 0 = 0"
    by (simp add: example_file_eq indexOf_def)
  have b: "term_loop (toLowerCase ''hello world'') [\<lparr>operator = ''OR'', word = Arr [''zzz'', ''world'']\<rparr>] 0 = 1"
    by (simp add: indexOf_def toLowerCase_def lowerChar_def isUpper_def)
  from search_shared_counter [OF h, of "[\<lparr>operator = ''OR'', word = Arr [''zzz'', ''world'']\<rparr>]"]
  have "fst (search [\<lparr>operator = ''OR'', word = Arr [''zzz'', ''world'']\<rparr>] example_file) = Inr True"
    by (simp add: example_file_eq indexOf_def toLowerCase_def lowerChar_def isUpper_def Let_def)
  with h a b show ?thesis
    by simp
qed

subsection \<open>Upper case in a search word\<close>




end
